theory Spec2Isabelle
  imports Complex_Main
begin

section \<open>Antoine coefficient library (chemeos/antoine.py)\<close>

text \<open>
  The module stores, per chemical species, a list of Antoine coefficient sets, each valid on
  a temperature interval, and evaluates the Antoine correlation
  \<open>log P = A - B / (C + T)\<close>. The numbers a caller passes (coefficients, limits, temperatures)
  are finite and are modelled by their values in \<^typ>\<open>real\<close>; comparing two such numbers is
  exact in Python. The results of Python's arithmetic operators are not fixed here: they are
  rounded, they may be infinite or not a number, and whether an operator raises depends on the
  types of its operands (\<open>int\<close>, \<open>float\<close>, \<open>numpy.float64\<close>). The operators are therefore
  parameters of the model. Exceptions are values of the type \<open>error\<close>; a function that may raise
  returns \<open>error + 'a\<close>.
\<close>

subsection \<open>Exceptions and their messages\<close>

text \<open>
  A message is the sequence of operands that the source concatenates with \<open>+\<close>:
  \<open>Lit s\<close> is a Python string, \<open>Str_of x\<close> is \<open>str(x)\<close> of a number \<open>x\<close>.
  An exception carries its tuple of arguments: \<open>SpeciesNotFound()\<close> carries \<open>[]\<close>,
  \<open>SpeciesNotFound(m)\<close> carries \<open>[m]\<close>.
\<close>

datatype piece = Lit string | Str_of real

type_synonym message = "piece list"

text \<open>
  \<open>ZeroDivisionError\<close> and \<open>OverflowError\<close> are the exceptions that Python's arithmetic raises;
  both are subclasses of \<open>ArithmeticError\<close>.
\<close>

datatype arith_error = ZeroDivisionError | OverflowError

datatype error =
    SpeciesNotFound "message list"
  | TemperatureOutOfRange "message list"
  | ArithmeticError arith_error

subsection \<open>Data\<close>

text \<open>
  One coefficient set is the dictionary \<open>new_item\<close> built by \<open>add_coefficients\<close>; it always has
  exactly the keys \<open>'A'\<close>, \<open>'B'\<close>, \<open>'C'\<close>, \<open>"lower temperature limit"\<close> and
  \<open>"upper temperature limit"\<close>, which are the fields of the record below.
\<close>

record coefficient_set =
  coeff_A :: real
  coeff_B :: real
  coeff_C :: real
  lower_temperature_limit :: real
  upper_temperature_limit :: real

text \<open>The attributes of an \<open>AntoineCoefficientLib\<close> object.\<close>

record antoine_lib =
  source :: string
  temperature_units :: string
  pressure_units :: string
  antoine_coeff_lib :: "string \<rightharpoonup> coefficient_set list"
  is_log10 :: bool

subsection \<open>Python's arithmetic\<close>

text \<open>
  The value of an arithmetic expression: a finite number, an infinity or not-a-number.
\<close>

datatype number = Finite real | Pos_inf | Neg_inf | Nan

text \<open>
  The operators that \<open>saturation_pressure\<close> applies, in the order in which it applies them:
  \<open>c + temp\<close>, \<open>b / (c + temp)\<close>, \<open>a - b / (c + temp)\<close>, \<open>10 ** exponent\<close> and
  \<open>np.e ** exponent\<close>. Each one returns a number or raises; nothing else is assumed of them,
  so that a statement about every \<open>arith\<close> holds for the operators of \<open>int\<close>, \<open>float\<close> and
  \<open>numpy.float64\<close> operands alike, with their rounding.
\<close>

record arith =
  py_add :: "real \<Rightarrow> real \<Rightarrow> arith_error + number"
  py_truediv :: "real \<Rightarrow> number \<Rightarrow> arith_error + number"
  py_sub :: "real \<Rightarrow> number \<Rightarrow> arith_error + number"
  pow_10 :: "number \<Rightarrow> arith_error + number"
  pow_e :: "number \<Rightarrow> arith_error + number"

text \<open>
  An operator's result inside a function that has no \<open>try\<close>: the value goes on to the rest of
  the computation, an exception leaves the function.
\<close>

definition raising :: "arith_error + 'a \<Rightarrow> ('a \<Rightarrow> error + 'b) \<Rightarrow> error + 'b" where
  "raising r rest = (case r of Inl e \<Rightarrow> Inl (ArithmeticError e) | Inr v \<Rightarrow> rest v)"

subsection \<open>The correlation\<close>

text \<open>
  \<open>saturation_pressure\<close>: \<open>exponent = coeff_a_val - coeff_b_val/(coeff_c_val + temp)\<close>, then
  \<open>10**exponent\<close> when \<open>is_log10 is True\<close> and \<open>np.e**exponent\<close> otherwise. The function has no
  test of its own on the divisor and catches nothing.
\<close>

definition saturation_pressure ::
  "arith \<Rightarrow> real \<Rightarrow> real \<Rightarrow> real \<Rightarrow> real \<Rightarrow> bool \<Rightarrow> error + number" where
  "saturation_pressure ar coeff_a_val coeff_b_val coeff_c_val temp log10_flag =
     raising (py_add ar coeff_c_val temp) (\<lambda>divisor.
     raising (py_truediv ar coeff_b_val divisor) (\<lambda>quotient.
     raising (py_sub ar coeff_a_val quotient) (\<lambda>exponent.
       if log10_flag then raising (pow_10 ar exponent) Inr
       else raising (pow_e ar exponent) Inr)))"

definition check_temperature :: "real \<Rightarrow> coefficient_set \<Rightarrow> bool" where
  "check_temperature temperature dct =
     (temperature \<ge> lower_temperature_limit dct \<and> temperature \<le> upper_temperature_limit dct)"

subsection \<open>The library\<close>

definition AntoineCoefficientLib :: "string \<Rightarrow> string \<Rightarrow> string \<Rightarrow> bool \<Rightarrow> antoine_lib" where
  "AntoineCoefficientLib t_units p_units src log10_flag =
     \<lparr>source = src, temperature_units = t_units, pressure_units = p_units,
      antoine_coeff_lib = Map.empty, is_log10 = log10_flag\<rparr>"

definition add_coefficients ::
  "antoine_lib \<Rightarrow> string \<Rightarrow> real \<Rightarrow> real \<Rightarrow> real \<Rightarrow> real \<Rightarrow> real \<Rightarrow> antoine_lib" where
  "add_coefficients self species_name coeff_a_val coeff_b_val coeff_c_val
       lower_temperature_limit_val upper_temperature_limit_val =
     (let new_item = \<lparr>coeff_A = coeff_a_val, coeff_B = coeff_b_val, coeff_C = coeff_c_val,
                       lower_temperature_limit = lower_temperature_limit_val,
                       upper_temperature_limit = upper_temperature_limit_val\<rparr>
      in case antoine_coeff_lib self species_name of
           Some sets \<Rightarrow>
             self\<lparr>antoine_coeff_lib := (antoine_coeff_lib self)(species_name \<mapsto> sets @ [new_item])\<rparr>
         | None \<Rightarrow>
             self\<lparr>antoine_coeff_lib := (antoine_coeff_lib self)(species_name \<mapsto> [new_item])\<rparr>)"

text \<open>The \<open>for\<close> loop of \<open>get_coeffs\<close>: \<open>Some dct\<close> is its \<open>return dct\<close>, \<open>None\<close> its falling through.\<close>

fun get_coeffs_loop :: "real \<Rightarrow> coefficient_set list \<Rightarrow> coefficient_set option" where
  "get_coeffs_loop temperature [] = None"
| "get_coeffs_loop temperature (dct # coeffs) =
     (if check_temperature temperature dct then Some dct
      else get_coeffs_loop temperature coeffs)"

definition out_of_range_message :: "antoine_lib \<Rightarrow> real \<Rightarrow> message" where
  "out_of_range_message self temperature =
     [Lit ''There is no availible set of coefficients         with a temperature range '',
      Str_of temperature, Lit '' '', Lit (temperature_units self),
      Lit '' is within the bounds of.'']"

definition get_coeffs :: "antoine_lib \<Rightarrow> string \<Rightarrow> real \<Rightarrow> error + coefficient_set" where
  "get_coeffs self species_name temperature =
     (case antoine_coeff_lib self species_name of
        None \<Rightarrow> Inl (SpeciesNotFound [[Lit species_name, Lit '' is not in this dictionary'']])
      | Some coeffs \<Rightarrow>
         (case get_coeffs_loop temperature coeffs of
            Some dct \<Rightarrow> Inr dct
          | None \<Rightarrow> Inl (TemperatureOutOfRange [out_of_range_message self temperature])))"

definition get_a :: "antoine_lib \<Rightarrow> string \<Rightarrow> real \<Rightarrow> error + real" where
  "get_a self species_name temperature =
     (case get_coeffs self species_name temperature of
        Inl e \<Rightarrow> Inl e | Inr dct \<Rightarrow> Inr (coeff_A dct))"

definition get_b :: "antoine_lib \<Rightarrow> string \<Rightarrow> real \<Rightarrow> error + real" where
  "get_b self species_name temperature =
     (case get_coeffs self species_name temperature of
        Inl e \<Rightarrow> Inl e | Inr dct \<Rightarrow> Inr (coeff_B dct))"

definition get_c :: "antoine_lib \<Rightarrow> string \<Rightarrow> real \<Rightarrow> error + real" where
  "get_c self species_name temperature =
     (case get_coeffs self species_name temperature of
        Inl e \<Rightarrow> Inl e | Inr dct \<Rightarrow> Inr (coeff_C dct))"

definition get_saturation_pressure ::
  "arith \<Rightarrow> antoine_lib \<Rightarrow> string \<Rightarrow> real \<Rightarrow> error + number" where
  "get_saturation_pressure ar self species_name temperature =
     (if antoine_coeff_lib self species_name = None then Inl (SpeciesNotFound [])
      else case get_coeffs self species_name temperature of
             Inl e \<Rightarrow> Inl e
           | Inr coeffs \<Rightarrow>
               if check_temperature temperature coeffs = False
               then Inl (TemperatureOutOfRange [])
               else saturation_pressure ar (coeff_A coeffs) (coeff_B coeffs) (coeff_C coeffs)
                      temperature (is_log10 self))"

text \<open>The library built in \<open>src.py\<close>.\<close>

definition boublik_et_al :: antoine_lib where
  "boublik_et_al =
     add_coefficients
       (AntoineCoefficientLib ''Celsius'' ''mmHg''
          ''T. Boublik, V. Fried, and E. Hala    , Vapour Pressures of Pure Substances, Elsevier, Amsterdam, 1973''
          True)
       ''methanol'' 8.08097 1582.271 239.726 14.9 83.7"

subsection \<open>Method calls on a library object\<close>

text \<open>
  A call of a method on an \<open>AntoineCoefficientLib\<close> object yields what the method returns or
  raises, together with the object afterwards. \<open>add_coefficients\<close> returns Python's \<open>None\<close>
  and is the only method that assigns to an attribute of \<open>self\<close>.
\<close>

datatype method_call =
    Add_coefficients string real real real real real
  | Get_coeffs string real
  | Get_a string real
  | Get_b string real
  | Get_c string real
  | Get_saturation_pressure string real

datatype return_value =
  None_value | Dict_value coefficient_set | Number_value real | Result_value number

fun call_method ::
  "arith \<Rightarrow> antoine_lib \<Rightarrow> method_call \<Rightarrow> (error + return_value) \<times> antoine_lib" where
  "call_method ar self (Add_coefficients s a b c lo hi) =
     (Inr None_value, add_coefficients self s a b c lo hi)"
| "call_method ar self (Get_coeffs s T) = (map_sum id Dict_value (get_coeffs self s T), self)"
| "call_method ar self (Get_a s T) = (map_sum id Number_value (get_a self s T), self)"
| "call_method ar self (Get_b s T) = (map_sum id Number_value (get_b self s T), self)"
| "call_method ar self (Get_c s T) = (map_sum id Number_value (get_c self s T), self)"
| "call_method ar self (Get_saturation_pressure s T) =
     (map_sum id Result_value (get_saturation_pressure ar self s T), self)"

subsection \<open>Example libraries\<close>

text \<open>
  Two further libraries used as concrete inputs: one species with two overlapping coefficient
  sets, and one whose coefficient \<open>C\<close> cancels a temperature inside its interval.
\<close>

definition two_sets :: antoine_lib where
  "two_sets = add_coefficients (add_coefficients (AntoineCoefficientLib ''K'' ''bar'' ''none'' False)
      ''x'' 1 2 3 0 10) ''x'' 4 5 6 5 15"


subsection \<open>Two arithmetics\<close>

text \<open>
  The operators for built-in \<open>float\<close> operands and for \<open>numpy.float64\<close> operands, used as
  concrete arithmetics. A result beyond the range of a double is infinite; on a zero divisor
  Python's \<open>/\<close> raises \<open>ZeroDivisionError\<close> where numpy's returns an infinity or not-a-number
  (with a warning); on a finite exponent Python's \<open>**\<close> raises \<open>OverflowError\<close> where numpy's
  returns an infinity. A result inside the range is left unrounded and a zero stands for
  \<open>+0.0\<close>, so the two arithmetics are those of Python only where the operations on doubles
  are exact, as they are in \<open>(-50) + 50\<close>, \<open>1500 / 0.0\<close>, \<open>8 - inf\<close> and \<open>10 ** -inf\<close>.
  \<open>np_e\<close> is the double \<open>np.e\<close>.
\<close>

definition float_limit :: real where
  "float_limit = 2 ^ 1024 - 2 ^ 970"

definition float_result :: "real \<Rightarrow> number" where
  "float_result x =
     (if float_limit \<le> x then Pos_inf else if x \<le> - float_limit then Neg_inf else Finite x)"

definition np_e :: real where
  "np_e = 6121026514868073 / 2 ^ 51"

fun float_sub :: "real \<Rightarrow> number \<Rightarrow> number" where
  "float_sub x (Finite y) = float_result (x - y)"
| "float_sub x Pos_inf = Neg_inf"
| "float_sub x Neg_inf = Pos_inf"
| "float_sub x Nan = Nan"

text \<open>Division by a divisor other than zero, and a power of a base above 1.\<close>

fun float_div :: "real \<Rightarrow> number \<Rightarrow> number" where
  "float_div x (Finite y) = float_result (x / y)"
| "float_div x Pos_inf = Finite 0"
| "float_div x Neg_inf = Finite 0"
| "float_div x Nan = Nan"


fun python_pow :: "real \<Rightarrow> number \<Rightarrow> arith_error + number" where
  "python_pow b (Finite y) =
     (if float_limit \<le> b powr y then Inl OverflowError else Inr (Finite (b powr y)))"
| "python_pow b Pos_inf = Inr Pos_inf"
| "python_pow b Neg_inf = Inr (Finite 0)"
| "python_pow b Nan = Inr Nan"

definition python_float :: arith where
  "python_float =
     \<lparr>py_add = (\<lambda>x y. Inr (float_result (x + y))),
      py_truediv = (\<lambda>x d. if d = Finite 0 then Inl ZeroDivisionError else Inr (float_div x d)),
      py_sub = (\<lambda>x q. Inr (float_sub x q)),
      pow_10 = python_pow 10,
      pow_e = python_pow np_e\<rparr>"


section \<open>Auxiliary facts\<close>

subsection \<open>Exceptions of the correlation\<close>

lemma saturation_pressure_not_out_of_range:
  "saturation_pressure ar a b c T flag \<noteq> Inl (TemperatureOutOfRange m)"
  by (simp add: saturation_pressure_def raising_def split: sum.split)


subsection \<open>The scan of a species' coefficient sets\<close>

lemma get_coeffs_loop_Some_iff:
  "get_coeffs_loop T xs = Some d \<longleftrightarrow>
     (\<exists>i<length xs. xs ! i = d \<and> check_temperature T d
        \<and> (\<forall>j<i. \<not> check_temperature T (xs ! j)))"
proof (induction xs)
  case Nil
  then show ?case by simp
next
  case (Cons x xs)
  show ?case
  proof (cases "check_temperature T x")
    case True
    have "(\<exists>i<length (x # xs). (x # xs) ! i = d \<and> check_temperature T d
        \<and> (\<forall>j<i. \<not> check_temperature T ((x # xs) ! j))) \<longleftrightarrow> x = d"
    proof
      assume "\<exists>i<length (x # xs). (x # xs) ! i = d \<and> check_temperature T d
        \<and> (\<forall>j<i. \<not> check_temperature T ((x # xs) ! j))"
      then obtain i where i: "i < length (x # xs)" "(x # xs) ! i = d"
        "\<forall>j<i. \<not> check_temperature T ((x # xs) ! j)" by blast
      have "i = 0"
      proof (rule ccontr)
        assume "i \<noteq> 0"
        then have "0 < i" by simp
        with i(3) have "\<not> check_temperature T ((x # xs) ! 0)" by blast
        with True show False by simp
      qed
      with i(2) show "x = d" by simp
    next
      assume "x = d"
      with True have "0 < length (x # xs) \<and> (x # xs) ! 0 = d \<and> check_temperature T d
        \<and> (\<forall>j<0. \<not> check_temperature T ((x # xs) ! j))" by simp
      then show "\<exists>i<length (x # xs). (x # xs) ! i = d \<and> check_temperature T d
        \<and> (\<forall>j<i. \<not> check_temperature T ((x # xs) ! j))" by blast
    qed
    with True show ?thesis by simp
  next
    case False
    have "(\<exists>i<length (x # xs). (x # xs) ! i = d \<and> check_temperature T d
        \<and> (\<forall>j<i. \<not> check_temperature T ((x # xs) ! j)))
      \<longleftrightarrow> (\<exists>i<length xs. xs ! i = d \<and> check_temperature T d
        \<and> (\<forall>j<i. \<not> check_temperature T (xs ! j)))" (is "?L \<longleftrightarrow> ?R")
    proof
      assume ?L
      then obtain i where i: "i < length (x # xs)" "(x # xs) ! i = d" "check_temperature T d"
        "\<forall>j<i. \<not> check_temperature T ((x # xs) ! j)" by blast
      from i(2,3) False have "i \<noteq> 0" by (cases i) auto
      then obtain k where k: "i = Suc k" by (cases i) auto
      have "\<forall>j<k. \<not> check_temperature T (xs ! j)"
      proof (intro allI impI)
        fix j assume "j < k"
        then have "Suc j < i" using k by simp
        with i(4) have "\<not> check_temperature T ((x # xs) ! Suc j)" by blast
        then show "\<not> check_temperature T (xs ! j)" by simp
      qed
      with i k show ?R by auto
    next
      assume ?R
      then obtain k where k: "k < length xs" "xs ! k = d" "check_temperature T d"
        "\<forall>j<k. \<not> check_temperature T (xs ! j)" by blast
      have "\<forall>j<Suc k. \<not> check_temperature T ((x # xs) ! j)"
      proof (intro allI impI)
        fix j assume j: "j < Suc k"
        show "\<not> check_temperature T ((x # xs) ! j)"
          using j k(4) False by (cases j) auto
      qed
      with k have "Suc k < length (x # xs) \<and> (x # xs) ! Suc k = d \<and> check_temperature T d
        \<and> (\<forall>j<Suc k. \<not> check_temperature T ((x # xs) ! j))" by simp
      then show ?L by blast
    qed
    with False Cons.IH show ?thesis by simp
  qed
qed

lemma get_coeffs_loop_None_iff:
  "get_coeffs_loop T xs = None \<longleftrightarrow> (\<forall>d\<in>set xs. \<not> check_temperature T d)"
  by (induction xs) auto

lemma get_coeffs_loop_check:
  "get_coeffs_loop T xs = Some d \<Longrightarrow> check_temperature T d"
  by (induction xs) (auto split: if_splits)

lemma get_coeffs_loop_append:
  "get_coeffs_loop T (xs @ ys) =
     (case get_coeffs_loop T xs of Some d \<Rightarrow> Some d | None \<Rightarrow> get_coeffs_loop T ys)"
  by (induction xs) auto

subsection \<open>Registration and lookup\<close>

text \<open>
  A species name is a key of the dictionary exactly when \<open>add_coefficients\<close> has been called
  with it since construction: the constructor starts from the empty dictionary, registration
  adds its key, and no method removes one.
\<close>

lemma dom_AntoineCoefficientLib:
  "dom (antoine_coeff_lib (AntoineCoefficientLib tu pu src flag)) = {}"
  by (simp add: AntoineCoefficientLib_def)

lemma dom_add_coefficients:
  "dom (antoine_coeff_lib (add_coefficients l s a b c lo hi)) = insert s (dom (antoine_coeff_lib l))"
  by (simp add: add_coefficients_def Let_def split: option.split)

lemma antoine_coeff_lib_add_same:
  "antoine_coeff_lib (add_coefficients l s a b c lo hi) s =
     Some ((case antoine_coeff_lib l s of None \<Rightarrow> [] | Some xs \<Rightarrow> xs)
           @ [\<lparr>coeff_A = a, coeff_B = b, coeff_C = c,
                lower_temperature_limit = lo, upper_temperature_limit = hi\<rparr>])"
  by (simp add: add_coefficients_def Let_def split: option.split)

lemma antoine_coeff_lib_add_other:
  "s' \<noteq> s \<Longrightarrow>
   antoine_coeff_lib (add_coefficients l s a b c lo hi) s' = antoine_coeff_lib l s'"
  by (simp add: add_coefficients_def Let_def split: option.split)

lemma add_coefficients_attributes:
  "source (add_coefficients l s a b c lo hi) = source l"
  "temperature_units (add_coefficients l s a b c lo hi) = temperature_units l"
  "pressure_units (add_coefficients l s a b c lo hi) = pressure_units l"
  "is_log10 (add_coefficients l s a b c lo hi) = is_log10 l"
  by (simp_all add: add_coefficients_def Let_def split: option.split)

lemma get_coeffs_registered:
  "antoine_coeff_lib l s = Some xs \<Longrightarrow>
   get_coeffs l s T =
     (case get_coeffs_loop T xs of Some d \<Rightarrow> Inr d
      | None \<Rightarrow> Inl (TemperatureOutOfRange [out_of_range_message l T]))"
  by (simp add: get_coeffs_def)

lemma get_coeffs_unregistered:
  "antoine_coeff_lib l s = None \<Longrightarrow>
   get_coeffs l s T = Inl (SpeciesNotFound [[Lit s, Lit '' is not in this dictionary'']])"
  by (simp add: get_coeffs_def)

lemma get_coeffs_Inr_iff:
  "get_coeffs l s T = Inr d \<longleftrightarrow>
     (\<exists>xs. antoine_coeff_lib l s = Some xs \<and> get_coeffs_loop T xs = Some d)"
  by (auto simp: get_coeffs_def split: option.splits)

subsection \<open>The concrete libraries\<close>

lemma boublik_et_al_methanol:
  "antoine_coeff_lib boublik_et_al ''methanol'' =
     Some [\<lparr>coeff_A = 8.08097, coeff_B = 1582.271, coeff_C = 239.726,
            lower_temperature_limit = 14.9, upper_temperature_limit = 83.7\<rparr>]"
  by (simp add: boublik_et_al_def add_coefficients_def AntoineCoefficientLib_def)

lemma boublik_et_al_ethanol: "antoine_coeff_lib boublik_et_al ''ethanol'' = None"
  by (simp add: boublik_et_al_def add_coefficients_def AntoineCoefficientLib_def)

lemma boublik_et_al_attributes:
  "temperature_units boublik_et_al = ''Celsius''" "is_log10 boublik_et_al = True"
  by (simp_all add: boublik_et_al_def add_coefficients_def AntoineCoefficientLib_def)

lemma two_sets_entry:
  "antoine_coeff_lib two_sets ''x'' =
     Some [\<lparr>coeff_A = 1, coeff_B = 2, coeff_C = 3,
             lower_temperature_limit = 0, upper_temperature_limit = 10\<rparr>,
           \<lparr>coeff_A = 4, coeff_B = 5, coeff_C = 6,
             lower_temperature_limit = 5, upper_temperature_limit = 15\<rparr>]"
  by (simp add: two_sets_def antoine_coeff_lib_add_same AntoineCoefficientLib_def)



section \<open>The correlation evaluator\<close>

text \<open>
  A nonzero divisor does not guarantee a value: with built-in numbers
  \<open>saturation_pressure(400, 0, 1, 0)\<close> has the exponent \<open>400.0\<close>, and \<open>10**400.0\<close> raises
  \<open>OverflowError\<close>.
\<close>

lemma saturation_pressure_overflow:
  "saturation_pressure python_float 400 0 1 0 True = Inl (ArithmeticError OverflowError)"
proof -
  have limit: "float_limit \<le> (10::real) powr 400"
    by (simp add: float_limit_def)
  have small: "float_result 0 = Finite 0" "float_result 1 = Finite 1"
    "float_result 400 = Finite 400"
    by (simp_all add: float_result_def float_limit_def)
  show ?thesis
    using limit
    by (simp add: saturation_pressure_def raising_def python_float_def small)
qed




section \<open>Registration\<close>

text \<open>
  C9. \<open>add_coefficients\<close> never raises and returns \<open>None\<close>. If the species already has an
  entry, the new coefficient set is appended at the end of its list, the earlier sets keeping
  their order; otherwise the entry becomes the list holding exactly the new set. No condition
  on the values is checked: the statement holds for all of them, also for a lower limit above
  the upper limit and for an interval that overlaps an earlier one.
\<close>

theorem add_coefficients_appends:
  "fst (call_method ar l (Add_coefficients s a b c lo hi)) = Inr None_value
   \<and> (antoine_coeff_lib l s = Some xs \<longrightarrow>
        antoine_coeff_lib (snd (call_method ar l (Add_coefficients s a b c lo hi))) s =
          Some (xs @ [\<lparr>coeff_A = a, coeff_B = b, coeff_C = c,
                        lower_temperature_limit = lo, upper_temperature_limit = hi\<rparr>]))
   \<and> (antoine_coeff_lib l s = None \<longrightarrow>
        antoine_coeff_lib (snd (call_method ar l (Add_coefficients s a b c lo hi))) s =
          Some [\<lparr>coeff_A = a, coeff_B = b, coeff_C = c,
                  lower_temperature_limit = lo, upper_temperature_limit = hi\<rparr>])"
  by (simp add: antoine_coeff_lib_add_same)

theorem add_coefficients_appends_witness:
  "\<forall>ar.
     antoine_coeff_lib (AntoineCoefficientLib ''Celsius'' ''mmHg'' ''none'' True) ''methanol'' = None
   \<and> antoine_coeff_lib boublik_et_al ''methanol'' =
       Some [\<lparr>coeff_A = 8.08097, coeff_B = 1582.271, coeff_C = 239.726,
               lower_temperature_limit = 14.9, upper_temperature_limit = 83.7\<rparr>]
   \<and> antoine_coeff_lib
        (snd (call_method ar (AntoineCoefficientLib ''Celsius'' ''mmHg'' ''none'' True)
           (Add_coefficients ''methanol'' 8.08097 1582.271 239.726 14.9 83.7))) ''methanol'' =
       Some [\<lparr>coeff_A = 8.08097, coeff_B = 1582.271, coeff_C = 239.726,
               lower_temperature_limit = 14.9, upper_temperature_limit = 83.7\<rparr>]
   \<and> fst (call_method ar boublik_et_al (Add_coefficients ''methanol'' 1 2 3 60 20))
       = Inr None_value
   \<and> antoine_coeff_lib
        (snd (call_method ar boublik_et_al (Add_coefficients ''methanol'' 1 2 3 60 20)))
        ''methanol'' =
       Some [\<lparr>coeff_A = 8.08097, coeff_B = 1582.271, coeff_C = 239.726,
               lower_temperature_limit = 14.9, upper_temperature_limit = 83.7\<rparr>,
             \<lparr>coeff_A = 1, coeff_B = 2, coeff_C = 3,
               lower_temperature_limit = 60, upper_temperature_limit = 20\<rparr>]"
proof
  fix ar
  let ?l0 = "AntoineCoefficientLib ''Celsius'' ''mmHg'' ''none'' True"
  let ?S = "\<lparr>coeff_A = 8.08097, coeff_B = 1582.271, coeff_C = 239.726,
            lower_temperature_limit = 14.9, upper_temperature_limit = 83.7 :: real\<rparr>"
  have fresh: "antoine_coeff_lib ?l0 ''methanol'' = None"
    by (simp add: AntoineCoefficientLib_def)
  show "antoine_coeff_lib ?l0 ''methanol'' = None
   \<and> antoine_coeff_lib boublik_et_al ''methanol'' = Some [?S]
   \<and> antoine_coeff_lib
        (snd (call_method ar ?l0
           (Add_coefficients ''methanol'' 8.08097 1582.271 239.726 14.9 83.7))) ''methanol'' =
       Some [?S]
   \<and> fst (call_method ar boublik_et_al (Add_coefficients ''methanol'' 1 2 3 60 20))
       = Inr None_value
   \<and> antoine_coeff_lib
        (snd (call_method ar boublik_et_al (Add_coefficients ''methanol'' 1 2 3 60 20)))
        ''methanol'' =
       Some [?S, \<lparr>coeff_A = 1, coeff_B = 2, coeff_C = 3,
               lower_temperature_limit = 60, upper_temperature_limit = 20\<rparr>]"
    using fresh boublik_et_al_methanol
      add_coefficients_appends
        [of ar ?l0 "''methanol''" "8.08097" "1582.271" "239.726" "14.9" "83.7" "[]"]
      add_coefficients_appends [of ar boublik_et_al "''methanol''" 1 2 3 60 20 "[?S]"]
    by simp
qed

text \<open>
  C10. The five queries \<open>get_coeffs\<close>, \<open>get_a\<close>, \<open>get_b\<close>, \<open>get_c\<close> and
  \<open>get_saturation_pressure\<close> leave the whole library object as it was, whether they return
  or raise. \<open>add_coefficients\<close> for a species \<open>s\<close> leaves the entry of every other species
  and the attributes \<open>temperature_units\<close>, \<open>pressure_units\<close>, \<open>source\<close> and \<open>is_log10\<close>
  as they were.
\<close>

theorem queries_leave_library_unchanged:
  "snd (call_method ar l (Get_coeffs s T)) = l
   \<and> snd (call_method ar l (Get_a s T)) = l
   \<and> snd (call_method ar l (Get_b s T)) = l
   \<and> snd (call_method ar l (Get_c s T)) = l
   \<and> snd (call_method ar l (Get_saturation_pressure s T)) = l
   \<and> (s' \<noteq> s \<longrightarrow>
        antoine_coeff_lib (snd (call_method ar l (Add_coefficients s a b c lo hi))) s'
          = antoine_coeff_lib l s')
   \<and> temperature_units (snd (call_method ar l (Add_coefficients s a b c lo hi)))
       = temperature_units l
   \<and> pressure_units (snd (call_method ar l (Add_coefficients s a b c lo hi))) = pressure_units l
   \<and> source (snd (call_method ar l (Add_coefficients s a b c lo hi))) = source l
   \<and> is_log10 (snd (call_method ar l (Add_coefficients s a b c lo hi))) = is_log10 l"
  by (simp add: add_coefficients_attributes antoine_coeff_lib_add_other)

theorem queries_leave_library_unchanged_witness:
  "\<forall>ar.
     ''methanol'' \<noteq> ''benzene''
   \<and> snd (call_method ar boublik_et_al (Get_saturation_pressure ''methanol'' 50)) = boublik_et_al
   \<and> snd (call_method ar boublik_et_al (Get_coeffs ''ethanol'' 50)) = boublik_et_al
   \<and> antoine_coeff_lib
        (snd (call_method ar boublik_et_al (Add_coefficients ''benzene'' 6.9 1211 220.8 8 103)))
        ''methanol''
       = antoine_coeff_lib boublik_et_al ''methanol''
   \<and> temperature_units
        (snd (call_method ar boublik_et_al (Add_coefficients ''benzene'' 6.9 1211 220.8 8 103)))
       = temperature_units boublik_et_al"
proof
  fix ar
  have ne: "''methanol'' \<noteq> ''benzene''" by simp
  show "''methanol'' \<noteq> ''benzene''
   \<and> snd (call_method ar boublik_et_al (Get_saturation_pressure ''methanol'' 50)) = boublik_et_al
   \<and> snd (call_method ar boublik_et_al (Get_coeffs ''ethanol'' 50)) = boublik_et_al
   \<and> antoine_coeff_lib
        (snd (call_method ar boublik_et_al (Add_coefficients ''benzene'' 6.9 1211 220.8 8 103)))
        ''methanol''
       = antoine_coeff_lib boublik_et_al ''methanol''
   \<and> temperature_units
        (snd (call_method ar boublik_et_al (Add_coefficients ''benzene'' 6.9 1211 220.8 8 103)))
       = temperature_units boublik_et_al"
    using ne
      queries_leave_library_unchanged [of ar boublik_et_al "''methanol''" 50]
      queries_leave_library_unchanged [of ar boublik_et_al "''ethanol''" 50]
      queries_leave_library_unchanged
        [of ar boublik_et_al "''benzene''" 50 "''methanol''" "6.9" 1211 "220.8" 8 103]
    by simp
qed

section \<open>Resolving a coefficient set\<close>

text \<open>
  C2. For a registered species, \<open>get_coeffs\<close> returns a set \<open>d\<close> exactly when \<open>d\<close> is the
  first set of the species' list, in insertion order, whose interval satisfies
  \<open>lower \<le> T \<le> upper\<close>, both ends included. In particular, when two sets whose intervals
  both contain \<open>T\<close> are registered one after the other and no set registered before them
  contains \<open>T\<close>, the one registered first is returned.
\<close>

theorem get_coeffs_first_match:
  "(antoine_coeff_lib l s = Some xs \<longrightarrow>
      (get_coeffs l s T = Inr d \<longleftrightarrow>
        (\<exists>i<length xs. xs ! i = d
           \<and> lower_temperature_limit d \<le> T \<and> T \<le> upper_temperature_limit d
           \<and> (\<forall>j<i. \<not> (lower_temperature_limit (xs ! j) \<le> T
                         \<and> T \<le> upper_temperature_limit (xs ! j))))))
   \<and> ((\<forall>d'. get_coeffs l s T \<noteq> Inr d') \<and> lo1 \<le> T \<and> T \<le> hi1 \<and> lo2 \<le> T \<and> T \<le> hi2 \<longrightarrow>
        get_coeffs (add_coefficients (add_coefficients l s a1 b1 c1 lo1 hi1) s a2 b2 c2 lo2 hi2) s T
          = Inr \<lparr>coeff_A = a1, coeff_B = b1, coeff_C = c1,
                 lower_temperature_limit = lo1, upper_temperature_limit = hi1\<rparr>)"
proof (intro conjI impI)
  assume reg: "antoine_coeff_lib l s = Some xs"
  have "get_coeffs l s T = Inr d \<longleftrightarrow> get_coeffs_loop T xs = Some d"
    using reg by (simp add: get_coeffs_registered split: option.split)
  then show "get_coeffs l s T = Inr d \<longleftrightarrow>
        (\<exists>i<length xs. xs ! i = d
           \<and> lower_temperature_limit d \<le> T \<and> T \<le> upper_temperature_limit d
           \<and> (\<forall>j<i. \<not> (lower_temperature_limit (xs ! j) \<le> T
                         \<and> T \<le> upper_temperature_limit (xs ! j))))"
    by (simp add: get_coeffs_loop_Some_iff check_temperature_def)
next
  let ?S1 = "\<lparr>coeff_A = a1, coeff_B = b1, coeff_C = c1,
                 lower_temperature_limit = lo1, upper_temperature_limit = hi1\<rparr>"
  let ?S2 = "\<lparr>coeff_A = a2, coeff_B = b2, coeff_C = c2,
                 lower_temperature_limit = lo2, upper_temperature_limit = hi2\<rparr>"
  let ?old = "case antoine_coeff_lib l s of None \<Rightarrow> [] | Some xs \<Rightarrow> xs"
  assume h: "(\<forall>d'. get_coeffs l s T \<noteq> Inr d') \<and> lo1 \<le> T \<and> T \<le> hi1 \<and> lo2 \<le> T \<and> T \<le> hi2"
  have old: "get_coeffs_loop T ?old = None"
  proof (cases "antoine_coeff_lib l s")
    case None
    then show ?thesis by simp
  next
    case (Some ys)
    with h have "\<forall>d'. get_coeffs_loop T ys \<noteq> Some d'"
      by (simp add: get_coeffs_Inr_iff)
    with Some show ?thesis by simp
  qed
  have entry: "antoine_coeff_lib
      (add_coefficients (add_coefficients l s a1 b1 c1 lo1 hi1) s a2 b2 c2 lo2 hi2) s
      = Some (?old @ [?S1, ?S2])"
    by (simp add: antoine_coeff_lib_add_same)
  have "get_coeffs_loop T (?old @ [?S1, ?S2]) = Some ?S1"
    using h old by (simp add: get_coeffs_loop_append check_temperature_def)
  with entry show "get_coeffs
      (add_coefficients (add_coefficients l s a1 b1 c1 lo1 hi1) s a2 b2 c2 lo2 hi2) s T = Inr ?S1"
    by (simp add: get_coeffs_registered)
qed

theorem get_coeffs_first_match_witness:
  "antoine_coeff_lib two_sets ''x'' =
     Some [\<lparr>coeff_A = 1, coeff_B = 2, coeff_C = 3,
             lower_temperature_limit = 0, upper_temperature_limit = 10\<rparr>,
           \<lparr>coeff_A = 4, coeff_B = 5, coeff_C = 6,
             lower_temperature_limit = 5, upper_temperature_limit = 15\<rparr>]
   \<and> (0::real) \<le> 7 \<and> (7::real) \<le> 10 \<and> (5::real) \<le> 7 \<and> (7::real) \<le> 15
   \<and> (\<forall>d'. get_coeffs (AntoineCoefficientLib ''K'' ''bar'' ''none'' False) ''x'' 7 \<noteq> Inr d')
   \<and> get_coeffs two_sets ''x'' 7 =
       Inr \<lparr>coeff_A = 1, coeff_B = 2, coeff_C = 3,
             lower_temperature_limit = 0, upper_temperature_limit = 10\<rparr>
   \<and> get_coeffs two_sets ''x'' 7 \<noteq>
       Inr \<lparr>coeff_A = 4, coeff_B = 5, coeff_C = 6,
             lower_temperature_limit = 5, upper_temperature_limit = 15\<rparr>"
proof -
  let ?S1 = "\<lparr>coeff_A = 1, coeff_B = 2, coeff_C = 3,
             lower_temperature_limit = 0, upper_temperature_limit = 10 :: real\<rparr>"
  let ?S2 = "\<lparr>coeff_A = 4, coeff_B = 5, coeff_C = 6,
             lower_temperature_limit = 5, upper_temperature_limit = 15 :: real\<rparr>"
  let ?l0 = "AntoineCoefficientLib ''K'' ''bar'' ''none'' False"
  have fresh: "\<forall>d'. get_coeffs ?l0 ''x'' 7 \<noteq> Inr d'"
    by (simp add: get_coeffs_def AntoineCoefficientLib_def)
  have tie: "get_coeffs two_sets ''x'' 7 = Inr ?S1"
    using fresh get_coeffs_first_match [of ?l0 "''x''" "[]" 7 ?S1 0 10 5 15 1 2 3 4 5 6]
    by (simp add: two_sets_def)
  have ex: "\<exists>i<length [?S1, ?S2]. [?S1, ?S2] ! i = ?S1
           \<and> lower_temperature_limit ?S1 \<le> 7 \<and> 7 \<le> upper_temperature_limit ?S1
           \<and> (\<forall>j<i. \<not> (lower_temperature_limit ([?S1, ?S2] ! j) \<le> 7
                         \<and> 7 \<le> upper_temperature_limit ([?S1, ?S2] ! j)))"
    by (rule exI [of _ 0]) simp
  have first: "get_coeffs two_sets ''x'' 7 = Inr ?S1"
    using get_coeffs_first_match [of two_sets "''x''" "[?S1, ?S2]" 7 ?S1] two_sets_entry ex
    by blast
  from first have "get_coeffs two_sets ''x'' 7 \<noteq> Inr ?S2" by simp
  with tie fresh two_sets_entry show ?thesis by simp
qed

text \<open>
  C5. For a registered species and a temperature \<open>T\<close> that no coefficient set of the
  species contains, \<open>get_coeffs\<close> raises \<open>TemperatureOutOfRange\<close> with one message, and that
  message holds \<open>str(T)\<close> and the library's temperature units.
\<close>

theorem get_coeffs_out_of_range:
  assumes "antoine_coeff_lib l s = Some xs"
    and "\<forall>d\<in>set xs. \<not> (lower_temperature_limit d \<le> T \<and> T \<le> upper_temperature_limit d)"
  shows "\<exists>m. get_coeffs l s T = Inl (TemperatureOutOfRange [m])
           \<and> Str_of T \<in> set m \<and> Lit (temperature_units l) \<in> set m"
proof -
  from assms(2) have "get_coeffs_loop T xs = None"
    by (simp add: get_coeffs_loop_None_iff check_temperature_def)
  with assms(1) have "get_coeffs l s T = Inl (TemperatureOutOfRange [out_of_range_message l T])"
    by (simp add: get_coeffs_registered)
  moreover have "Str_of T \<in> set (out_of_range_message l T)"
    by (simp add: out_of_range_message_def)
  moreover have "Lit (temperature_units l) \<in> set (out_of_range_message l T)"
    by (simp add: out_of_range_message_def)
  ultimately show ?thesis by blast
qed

theorem get_coeffs_out_of_range_witness:
  "antoine_coeff_lib boublik_et_al ''methanol'' =
     Some [\<lparr>coeff_A = 8.08097, coeff_B = 1582.271, coeff_C = 239.726,
            lower_temperature_limit = 14.9, upper_temperature_limit = 83.7\<rparr>]
   \<and> \<not> ((14.9::real) \<le> 100 \<and> (100::real) \<le> 83.7)
   \<and> (\<exists>m. get_coeffs boublik_et_al ''methanol'' 100 = Inl (TemperatureOutOfRange [m])
           \<and> Str_of 100 \<in> set m \<and> Lit ''Celsius'' \<in> set m)"
proof -
  let ?S = "\<lparr>coeff_A = 8.08097, coeff_B = 1582.271, coeff_C = 239.726,
            lower_temperature_limit = 14.9, upper_temperature_limit = 83.7 :: real\<rparr>"
  have out: "\<forall>d\<in>set [?S].
      \<not> (lower_temperature_limit d \<le> 100 \<and> 100 \<le> upper_temperature_limit d)"
    by simp
  show ?thesis
    using get_coeffs_out_of_range [OF boublik_et_al_methanol out] boublik_et_al_methanol out
    by (simp add: boublik_et_al_attributes)
qed

text \<open>
  C4. For a species name that is not a key of the library's dictionary, every query raises
  \<open>SpeciesNotFound\<close>, whatever the temperature: \<open>get_coeffs\<close>, \<open>get_a\<close>, \<open>get_b\<close> and
  \<open>get_c\<close> with the message of \<open>get_coeffs\<close>, \<open>get_saturation_pressure\<close> with no argument.
\<close>

theorem unregistered_species_not_found:
  assumes "s \<notin> dom (antoine_coeff_lib l)"
  shows "get_coeffs l s T = Inl (SpeciesNotFound [[Lit s, Lit '' is not in this dictionary'']])
       \<and> get_a l s T = Inl (SpeciesNotFound [[Lit s, Lit '' is not in this dictionary'']])
       \<and> get_b l s T = Inl (SpeciesNotFound [[Lit s, Lit '' is not in this dictionary'']])
       \<and> get_c l s T = Inl (SpeciesNotFound [[Lit s, Lit '' is not in this dictionary'']])
       \<and> get_saturation_pressure ar l s T = Inl (SpeciesNotFound [])"
proof -
  from assms have none: "antoine_coeff_lib l s = None" by (simp add: domIff)
  then have "get_coeffs l s T = Inl (SpeciesNotFound [[Lit s, Lit '' is not in this dictionary'']])"
    by (rule get_coeffs_unregistered)
  with none show ?thesis
    by (simp add: get_a_def get_b_def get_c_def get_saturation_pressure_def)
qed

theorem unregistered_species_not_found_witness:
  "''ethanol'' \<notin> dom (antoine_coeff_lib boublik_et_al)
   \<and> get_coeffs boublik_et_al ''ethanol'' 50
       = Inl (SpeciesNotFound [[Lit ''ethanol'', Lit '' is not in this dictionary'']])
   \<and> get_a boublik_et_al ''ethanol'' 50
       = Inl (SpeciesNotFound [[Lit ''ethanol'', Lit '' is not in this dictionary'']])
   \<and> get_b boublik_et_al ''ethanol'' 50
       = Inl (SpeciesNotFound [[Lit ''ethanol'', Lit '' is not in this dictionary'']])
   \<and> get_c boublik_et_al ''ethanol'' 50
       = Inl (SpeciesNotFound [[Lit ''ethanol'', Lit '' is not in this dictionary'']])
   \<and> (\<forall>ar. get_saturation_pressure ar boublik_et_al ''ethanol'' 50 = Inl (SpeciesNotFound []))"
proof -
  have h: "''ethanol'' \<notin> dom (antoine_coeff_lib boublik_et_al)"
    by (simp add: domIff boublik_et_al_ethanol)
  show ?thesis
    using h unregistered_species_not_found [OF h, of 50] by simp
qed

text \<open>
  C6. Not every \<open>SpeciesNotFound\<close> carries the species name. On the library of \<open>src.py\<close>
  and the unregistered name \<open>ethanol\<close>, the early check of \<open>get_saturation_pressure\<close>
  raises \<open>SpeciesNotFound()\<close>, with no argument at all, while \<open>get_coeffs\<close> raises it with
  the name in its message.
\<close>

theorem get_saturation_pressure_not_found_no_name:
  "get_saturation_pressure ar boublik_et_al ''ethanol'' 50 = Inl (SpeciesNotFound [])
   \<and> get_coeffs boublik_et_al ''ethanol'' 50
       = Inl (SpeciesNotFound [[Lit ''ethanol'', Lit '' is not in this dictionary'']])"
  by (simp add: get_saturation_pressure_def get_coeffs_unregistered boublik_et_al_ethanol)

section \<open>Saturation pressure of a registered species\<close>

text \<open>
  C7. Whenever \<open>get_coeffs\<close> returns a set, the temperature lies in that set's interval, so
  the second check in \<open>get_saturation_pressure\<close> passes; \<open>get_saturation_pressure\<close> never
  raises the argument-less \<open>TemperatureOutOfRange\<close> of that check.
\<close>

theorem revalidation_always_passes:
  "(get_coeffs l s T = Inr d \<longrightarrow> check_temperature T d)
   \<and> get_saturation_pressure ar l s T \<noteq> Inl (TemperatureOutOfRange [])"
proof
  show pass: "get_coeffs l s T = Inr d \<longrightarrow> check_temperature T d"
    by (auto simp: get_coeffs_Inr_iff dest: get_coeffs_loop_check)
  show "get_saturation_pressure ar l s T \<noteq> Inl (TemperatureOutOfRange [])"
  proof (cases "antoine_coeff_lib l s")
    case None
    then show ?thesis by (simp add: get_saturation_pressure_def)
  next
    case (Some xs)
    show ?thesis
    proof (cases "get_coeffs_loop T xs")
      case None
      with Some show ?thesis
        by (simp add: get_saturation_pressure_def get_coeffs_registered)
    next
      case (Some d')
      then have "check_temperature T d'" by (rule get_coeffs_loop_check)
      with Some \<open>antoine_coeff_lib l s = Some xs\<close> show ?thesis
        by (simp add: get_saturation_pressure_def get_coeffs_registered
            saturation_pressure_not_out_of_range)
    qed
  qed
qed

theorem revalidation_always_passes_witness:
  "get_coeffs boublik_et_al ''methanol'' 50 =
     Inr \<lparr>coeff_A = 8.08097, coeff_B = 1582.271, coeff_C = 239.726,
          lower_temperature_limit = 14.9, upper_temperature_limit = 83.7\<rparr>
   \<and> check_temperature 50 \<lparr>coeff_A = 8.08097, coeff_B = 1582.271, coeff_C = 239.726,
          lower_temperature_limit = 14.9, upper_temperature_limit = 83.7\<rparr>
   \<and> (\<forall>ar. get_saturation_pressure ar boublik_et_al ''methanol'' 50
         \<noteq> Inl (TemperatureOutOfRange []))"
proof -
  let ?S = "\<lparr>coeff_A = 8.08097, coeff_B = 1582.271, coeff_C = 239.726,
            lower_temperature_limit = 14.9, upper_temperature_limit = 83.7 :: real\<rparr>"
  have res: "get_coeffs boublik_et_al ''methanol'' 50 = Inr ?S"
    by (simp add: get_coeffs_registered boublik_et_al_methanol check_temperature_def)
  show ?thesis
    using res revalidation_always_passes [of boublik_et_al "''methanol''" 50 ?S]
    by blast
qed

text \<open>
  C1. For a registered species and a temperature \<open>T\<close> that some coefficient set of the
  species contains, \<open>get_coeffs\<close> resolves a set and \<open>get_saturation_pressure\<close> returns
  exactly \<open>saturation_pressure\<close> of that set's \<open>A\<close>, \<open>B\<close>, \<open>C\<close>, of \<open>T\<close> and of the
  library's \<open>is_log10\<close>. For the library of \<open>src.py\<close>, the saturation pressure of methanol
  at 50 is the value of the Python expression \<open>10**(8.08097 - 1582.271/(239.726+50))\<close>.
\<close>

theorem get_saturation_pressure_resolved:
  "(antoine_coeff_lib l s = Some xs
      \<and> (\<exists>d\<in>set xs. lower_temperature_limit d \<le> T \<and> T \<le> upper_temperature_limit d) \<longrightarrow>
      (\<exists>d. get_coeffs l s T = Inr d
         \<and> get_saturation_pressure ar l s T =
             saturation_pressure ar (coeff_A d) (coeff_B d) (coeff_C d) T (is_log10 l)))
   \<and> get_saturation_pressure ar boublik_et_al ''methanol'' 50 =
       raising (py_add ar 239.726 50) (\<lambda>divisor.
       raising (py_truediv ar 1582.271 divisor) (\<lambda>quotient.
       raising (py_sub ar 8.08097 quotient) (\<lambda>exponent.
       raising (pow_10 ar exponent) Inr)))"
proof (intro conjI impI)
  assume h: "antoine_coeff_lib l s = Some xs
      \<and> (\<exists>d\<in>set xs. lower_temperature_limit d \<le> T \<and> T \<le> upper_temperature_limit d)"
  then have "get_coeffs_loop T xs \<noteq> None"
    by (simp add: get_coeffs_loop_None_iff check_temperature_def)
  then obtain d where d: "get_coeffs_loop T xs = Some d" by blast
  with h have res: "get_coeffs l s T = Inr d"
    by (simp add: get_coeffs_registered)
  from d have "check_temperature T d" by (rule get_coeffs_loop_check)
  with h res have "get_saturation_pressure ar l s T =
      saturation_pressure ar (coeff_A d) (coeff_B d) (coeff_C d) T (is_log10 l)"
    by (simp add: get_saturation_pressure_def)
  with res show "\<exists>d. get_coeffs l s T = Inr d
         \<and> get_saturation_pressure ar l s T =
             saturation_pressure ar (coeff_A d) (coeff_B d) (coeff_C d) T (is_log10 l)"
    by blast
next
  show "get_saturation_pressure ar boublik_et_al ''methanol'' 50 =
       raising (py_add ar 239.726 50) (\<lambda>divisor.
       raising (py_truediv ar 1582.271 divisor) (\<lambda>quotient.
       raising (py_sub ar 8.08097 quotient) (\<lambda>exponent.
       raising (pow_10 ar exponent) Inr)))"
    by (simp add: get_saturation_pressure_def get_coeffs_registered boublik_et_al_methanol
        boublik_et_al_attributes check_temperature_def saturation_pressure_def)
qed

theorem get_saturation_pressure_resolved_witness:
  "antoine_coeff_lib boublik_et_al ''methanol'' =
     Some [\<lparr>coeff_A = 8.08097, coeff_B = 1582.271, coeff_C = 239.726,
            lower_temperature_limit = 14.9, upper_temperature_limit = 83.7\<rparr>]
   \<and> (\<exists>d\<in>set [\<lparr>coeff_A = 8.08097, coeff_B = 1582.271, coeff_C = 239.726,
            lower_temperature_limit = 14.9, upper_temperature_limit = 83.7\<rparr>].
         lower_temperature_limit d \<le> 50 \<and> 50 \<le> upper_temperature_limit d)
   \<and> (\<forall>ar. \<exists>d. get_coeffs boublik_et_al ''methanol'' 50 = Inr d
         \<and> get_saturation_pressure ar boublik_et_al ''methanol'' 50 =
             saturation_pressure ar (coeff_A d) (coeff_B d) (coeff_C d) 50
               (is_log10 boublik_et_al))"
proof -
  let ?S = "\<lparr>coeff_A = 8.08097, coeff_B = 1582.271, coeff_C = 239.726,
            lower_temperature_limit = 14.9, upper_temperature_limit = 83.7 :: real\<rparr>"
  have in_range: "\<exists>d\<in>set [?S]. lower_temperature_limit d \<le> 50 \<and> 50 \<le> upper_temperature_limit d"
    by simp
  show ?thesis
    using get_saturation_pressure_resolved [of boublik_et_al "''methanol''" "[?S]" 50]
      boublik_et_al_methanol in_range
    by blast
qed

end
